theory Spec2Isabelle
  imports Complex_Main
begin

section \<open>The relational operators used by the queries of \<open>src/lib/database.ts\<close>\<close>

text \<open>
  The analytics of the repository are SQL queries run by SQLite over the tables
  \<open>messages\<close> and \<open>channels\<close>. Each query is embedded as a function on the row
  lists of these tables. The wall clock (\<open>datetime('now', ...)\<close>) is the explicit
  argument \<open>now\<close>. A column of storage class REAL is a HOL \<open>real\<close>: arithmetic is
  exact, the rounding of IEEE doubles is outside the model.
\<close>

text \<open>
  \<open>GROUP BY key\<close>: the groups of a row list, each with its key. SQL leaves the order
  of the groups open unless the query orders them; here a group appears where its
  first row does. A group is never empty.
\<close>

fun group_by :: "('a \<Rightarrow> 'k) \<Rightarrow> 'a list \<Rightarrow> ('k \<times> 'a list) list" where
  "group_by key [] = []"
| "group_by key (x # xs) =
     (key x, x # filter (\<lambda>y. key y = key x) xs)
       # group_by key (filter (\<lambda>y. key y \<noteq> key x) xs)"

text \<open>\<open>AVG\<close>, \<open>MIN\<close> and \<open>MAX\<close> over the (non-empty) column of a group.\<close>

definition AVG :: "real list \<Rightarrow> real" where
  "AVG xs = sum_list xs / of_nat (length xs)"

definition MIN_col :: "'a::linorder list \<Rightarrow> 'a" where
  "MIN_col xs = fold min (tl xs) (hd xs)"

definition MAX_col :: "'a::linorder list \<Rightarrow> 'a" where
  "MAX_col xs = fold max (tl xs) (hd xs)"





text \<open>
  \<open>ROW_NUMBER() OVER (PARTITION BY part ORDER BY ord)\<close>: one more than the number of
  rows of the same partition that sort before the row. The queries below only number
  rows whose \<open>ord\<close> is unique inside a partition (one row per channel and date).
\<close>

definition ROW_NUMBER :: "('a \<Rightarrow> 'p) \<Rightarrow> ('a \<Rightarrow> int) \<Rightarrow> 'a list \<Rightarrow> 'a \<Rightarrow> nat" where
  "ROW_NUMBER part ord rows r =
     Suc (length (filter (\<lambda>r'. part r' = part r \<and> ord r' < ord r) rows))"

section \<open>The tables \<open>messages\<close> and \<open>channels\<close>\<close>

text \<open>
  A row of \<open>messages\<close> (interface \<open>Message\<close>). The columns \<open>id\<close>, \<open>text\<close> and
  \<open>created_at\<close> are read by no analytics query and are left out. \<open>timestamp\<close> is
  the instant in seconds since 1970-01-01T00:00:00Z, and \<open>DATE(timestamp)\<close> the number
  of its calendar day, counted from 1970-01-01. The column holds the instant as ISO 8601
  text; a comparison of the column with \<open>datetime('now', ...)\<close> is taken as the
  comparison of the two instants.
\<close>

record message =
  channel_id :: string
  user_id :: string
  timestamp :: int
  sentiment_score :: real


definition DATE :: "int \<Rightarrow> int" where
  "DATE ts = ts div 86400"

text \<open>\<open>WHERE timestamp >= datetime('now', '-N days')\<close>.\<close>

definition recent :: "int \<Rightarrow> int \<Rightarrow> message list \<Rightarrow> message list" where
  "recent now days ms = filter (\<lambda>m. now - days * 86400 \<le> timestamp m) ms"

section \<open>\<open>getDailyMoodTrends\<close>\<close>




section \<open>\<open>getWeeklyMoodTrends\<close>\<close>







section \<open>\<open>getChannelSummary\<close>\<close>





section \<open>\<open>detectBurnoutRisks\<close>: consecutive low days\<close>

record daily_sentiment_row =
  ds_channel_id :: string
  ds_date :: int
  daily_sentiment :: real

text \<open>The common table expression \<open>daily_sentiment\<close> of the first query.\<close>

definition daily_sentiment_cte :: "int \<Rightarrow> message list \<Rightarrow> daily_sentiment_row list" where
  "daily_sentiment_cte now ms =
     map (\<lambda>(k, g). \<lparr>ds_channel_id = fst k, ds_date = snd k,
                     daily_sentiment = AVG (map sentiment_score g)\<rparr>)
       (group_by (\<lambda>m. (channel_id m, DATE (timestamp m))) (recent now 7 ms))"

record low_sentiment_row =
  ls_channel_id :: string
  ls_date :: int
  ls_daily_sentiment :: real
  grp :: int

text \<open>
  The common table expression \<open>low_sentiment_days\<close>. SQL evaluates the \<open>WHERE\<close>
  clause of a \<open>SELECT\<close> before its window functions, so both \<open>ROW_NUMBER\<close>s number
  the rows that are left after \<open>WHERE daily_sentiment < 4.0\<close>.
\<close>

definition low_sentiment_days :: "daily_sentiment_row list \<Rightarrow> low_sentiment_row list" where
  "low_sentiment_days ds =
     (let rows = filter (\<lambda>r. daily_sentiment r < 4) ds
      in map (\<lambda>r. \<lparr>ls_channel_id = ds_channel_id r, ls_date = ds_date r,
                    ls_daily_sentiment = daily_sentiment r,
                    grp = int (ROW_NUMBER ds_channel_id ds_date rows r)
                        - int (ROW_NUMBER (\<lambda>r. (ds_channel_id r,
                                 if daily_sentiment r < 4 then 1 else 0 :: nat))
                               ds_date rows r)\<rparr>) rows)"

record streak =
  sk_channel_id :: string
  streak_start :: int
  streak_end :: int
  consecutive_days :: nat
  avg_sentiment_in_streak :: real

text \<open>The final \<open>SELECT\<close> of the first query, over the rows of \<open>low_sentiment_days\<close>.\<close>

definition streaks_of :: "daily_sentiment_row list \<Rightarrow> streak list" where
  "streaks_of ds =
     map (\<lambda>(k, g). \<lparr>sk_channel_id = fst k,
                     streak_start = MIN_col (map ls_date g),
                     streak_end = MAX_col (map ls_date g),
                     consecutive_days = length g,
                     avg_sentiment_in_streak = AVG (map ls_daily_sentiment g)\<rparr>)
       (filter (\<lambda>(k, g). 3 \<le> length g)
         (group_by (\<lambda>r. (ls_channel_id r, grp r)) (low_sentiment_days ds)))"

definition consecutiveLowDays :: "int \<Rightarrow> message list \<Rightarrow> streak list" where
  "consecutiveLowDays now ms = streaks_of (daily_sentiment_cte now ms)"

section \<open>\<open>detectBurnoutRisks\<close>: declining trends\<close>

text \<open>
  The common table expression \<open>daily_sentiment\<close> of the second query: the days of the
  last 5 days on which a channel has at least 3 messages (\<open>HAVING COUNT( * ) >= 3\<close>).
\<close>

definition trend_days :: "int \<Rightarrow> message list \<Rightarrow> daily_sentiment_row list" where
  "trend_days now ms =
     map (\<lambda>(k, g). \<lparr>ds_channel_id = fst k, ds_date = snd k,
                     daily_sentiment = AVG (map sentiment_score g)\<rparr>)
       (filter (\<lambda>(k, g). 3 \<le> length g)
         (group_by (\<lambda>m. (channel_id m, DATE (timestamp m))) (recent now 5 ms)))"

record trend_point =
  tp_channel_id :: string
  tp_date :: int
  tp_daily_sentiment :: real
  day_num :: nat

text \<open>
  Its column \<open>day_num\<close>: \<open>ROW_NUMBER() OVER (PARTITION BY channel_id ORDER BY
  DATE(timestamp))\<close>, numbering the days that the \<open>HAVING\<close> clause has kept.
\<close>

definition trend_points :: "daily_sentiment_row list \<Rightarrow> trend_point list" where
  "trend_points rows =
     map (\<lambda>r. \<lparr>tp_channel_id = ds_channel_id r, tp_date = ds_date r,
                tp_daily_sentiment = daily_sentiment r,
                day_num = ROW_NUMBER ds_channel_id ds_date rows r\<rparr>) rows"

text \<open>
  \<open>(COUNT( * ) * SUM(day_num * daily_sentiment) - SUM(day_num) * SUM(daily_sentiment)) /
  (COUNT( * ) * SUM(day_num * day_num) - SUM(day_num) * SUM(day_num))\<close>
  over the points of one channel. A division by zero is NULL in SQLite, here \<open>None\<close>.
\<close>

definition trend_slope_of :: "trend_point list \<Rightarrow> real option" where
  "trend_slope_of g =
     (let n = length g;
          sxy = sum_list (map (\<lambda>p. of_nat (day_num p) * tp_daily_sentiment p) g);
          sx = sum_list (map day_num g);
          sy = sum_list (map tp_daily_sentiment g);
          sxx = sum_list (map (\<lambda>p. day_num p * day_num p) g);
          den = int (n * sxx) - int (sx * sx)
      in if den = 0 then None
         else Some ((of_nat n * sxy - of_nat sx * sy) / of_int den))"

record trend_row =
  tr_channel_id :: string
  days_count :: nat
  trend_slope :: "real option"
  tr_avg_sentiment :: real
  min_sentiment :: real
  max_sentiment :: real

text \<open>The common table expression \<open>trend_analysis\<close>.\<close>

definition trend_analysis :: "trend_point list \<Rightarrow> trend_row list" where
  "trend_analysis pts =
     map (\<lambda>(c, g). \<lparr>tr_channel_id = c,
                     days_count = length g,
                     trend_slope = trend_slope_of g,
                     tr_avg_sentiment = AVG (map tp_daily_sentiment g),
                     min_sentiment = MIN_col (map tp_daily_sentiment g),
                     max_sentiment = MAX_col (map tp_daily_sentiment g)\<rparr>)
       (group_by tp_channel_id pts)"



section \<open>\<open>detectBurnoutRisks\<close>: users at risk\<close>




section \<open>The alert generator: \<open>POST\<close> of \<open>src/app/api/alerts/route.ts\<close>\<close>


datatype severity = critical | warning | high | medium









section \<open>Reaction sentiment: \<open>src/app/api/slack/messages/route.ts\<close>\<close>

text \<open>
  The values that a property read of \<open>emojiMap\<close> can give: a number of the table,
  \<open>undefined\<close>, or a member that the object literal inherits from
  \<open>Object.prototype\<close>. A JavaScript number that may be NaN is a \<open>real option\<close>.
\<close>

datatype js_value = JNumber real | JUndefined | JFunction string | JObject string

definition emojiMap :: "(string \<times> real) list" where
  "emojiMap =
     [(''joy'', 10), (''grinning'', 9), (''heart_eyes'', 10),
      (''heart'', 9), (''tada'', 10), (''fire'', 9),
      (''rocket'', 9), (''star'', 9), (''sparkles'', 9),
      (''clap'', 9), (''raised_hands'', 9), (''muscle'', 9),
      (''trophy'', 10), (''crown'', 9), (''smile'', 8),
      (''thumbsup'', 8), (''+1'', 8), (''ok_hand'', 7),
      (''wave'', 7), (''wink'', 7), (''relaxed'', 7),
      (''blush'', 7), (''sunglasses'', 8), (''cool'', 8),
      (''laughing'', 8), (''smiley'', 8), (''grin'', 8),
      (''beaming_face_with_smiling_eyes'', 8), (''slightly_smiling_face'', 6), (''upside_down_face'', 6),
      (''innocent'', 6), (''thinking_face'', 5), (''neutral_face'', 5),
      (''expressionless'', 5), (''shrug'', 5), (''face_with_raised_eyebrow'', 5),
      (''eyes'', 5), (''zipper_mouth_face'', 5), (''confused'', 4),
      (''unamused'', 4), (''rolling_eyes'', 4), (''grimacing'', 4),
      (''hushed'', 4), (''flushed'', 4), (''disappointed'', 3),
      (''worried'', 3), (''frowning'', 3), (''pensive'', 3),
      (''tired_face'', 3), (''weary'', 2), (''persevere'', 3),
      (''confounded'', 2), (''thumbsdown'', 2), (''-1'', 2),
      (''no_good'', 2), (''x'', 2), (''cry'', 2),
      (''sob'', 1), (''angry'', 1), (''rage'', 1),
      (''face_with_symbols_on_mouth'', 1), (''triumph'', 2), (''disappointed_relieved'', 2),
      (''fearful'', 1), (''cold_sweat'', 2), (''coffee'', 6),
      (''computer'', 6), (''memo'', 6), (''calendar'', 5),
      (''clock'', 5), (''hourglass_flowing_sand'', 4), (''alarm_clock'', 4),
      (''sos'', 2), (''warning'', 3), (''handshake'', 8),
      (''raised_hand'', 7), (''point_up'', 6), (''heavy_check_mark'', 8),
      (''white_check_mark'', 8), (''ballot_box_with_check'', 7), (''question'', 5),
      (''exclamation'', 4), (''double_exclamation_mark'', 3)]"

text \<open>
  The properties of \<open>Object.prototype\<close>, which every object literal inherits.
\<close>

definition Object_prototype :: "(string \<times> js_value) list" where
  "Object_prototype =
     [(''constructor'', JFunction ''Object''),
      (''__proto__'', JObject ''Object.prototype''),
      (''hasOwnProperty'', JFunction ''hasOwnProperty''),
      (''isPrototypeOf'', JFunction ''isPrototypeOf''),
      (''propertyIsEnumerable'', JFunction ''propertyIsEnumerable''),
      (''toLocaleString'', JFunction ''toLocaleString''),
      (''toString'', JFunction ''toString''),
      (''valueOf'', JFunction ''valueOf''),
      (''__defineGetter__'', JFunction ''__defineGetter__''),
      (''__defineSetter__'', JFunction ''__defineSetter__''),
      (''__lookupGetter__'', JFunction ''__lookupGetter__''),
      (''__lookupSetter__'', JFunction ''__lookupSetter__'')]"

text \<open>\<open>emojiMap[emoji]\<close>: an own property first, then the prototype.\<close>

definition emojiMap_get :: "string \<Rightarrow> js_value" where
  "emojiMap_get emoji =
     (case map_of emojiMap emoji of
        Some v \<Rightarrow> JNumber v
      | None \<Rightarrow> (case map_of Object_prototype emoji of
                   Some v \<Rightarrow> v
                 | None \<Rightarrow> JUndefined))"

fun truthy :: "js_value \<Rightarrow> bool" where
  "truthy (JNumber x) = (x \<noteq> 0)"
| "truthy JUndefined = False"
| "truthy (JFunction f) = True"
| "truthy (JObject ob) = True"

text \<open>\<open>return emojiMap[emoji] || 5\<close>.\<close>

definition getEmojiSentiment :: "string \<Rightarrow> js_value" where
  "getEmojiSentiment emoji =
     (let v = emojiMap_get emoji in if truthy v then v else JNumber 5)"

text \<open>The conversion of an operand of \<open>*\<close> to a number; \<open>None\<close> is NaN.\<close>

fun ToNumber :: "js_value \<Rightarrow> real option" where
  "ToNumber (JNumber x) = Some x"
| "ToNumber JUndefined = None"
| "ToNumber (JFunction f) = None"
| "ToNumber (JObject ob) = None"

fun js_times :: "real option \<Rightarrow> real option \<Rightarrow> real option" where
  "js_times (Some x) (Some y) = Some (x * y)"
| "js_times a b = None"

fun js_plus :: "real option \<Rightarrow> real option \<Rightarrow> real option" where
  "js_plus (Some x) (Some y) = Some (x + y)"
| "js_plus a b = None"

text \<open>A quotient whose divisor is a number other than zero.\<close>

fun js_divide :: "real option \<Rightarrow> real \<Rightarrow> real option" where
  "js_divide (Some x) y = Some (x / y)"
| "js_divide None y = None"

record reaction =
  rx_name :: string
  rx_count :: nat

text \<open>
  The loop over \<open>message.reactions\<close>; the state is \<open>reactionSentimentSum\<close> and
  \<open>reactionCount\<close>. \<open>reaction.count || 1\<close> replaces a zero count by 1.
\<close>

fun reaction_loop :: "real option \<times> nat \<Rightarrow> reaction list \<Rightarrow> real option \<times> nat" where
  "reaction_loop (reactionSentimentSum, reactionCount) [] =
     (reactionSentimentSum, reactionCount)"
| "reaction_loop (reactionSentimentSum, reactionCount) (r # rs) =
     (let emojiSentiment = getEmojiSentiment (rx_name r);
          count = (if rx_count r = 0 then 1 else rx_count r)
      in reaction_loop
           (js_plus reactionSentimentSum (js_times (ToNumber emojiSentiment) (Some (of_nat count))),
            reactionCount + count) rs)"

text \<open>
  The sentiment score that the message has after its reactions are processed, from the
  score \<open>score\<close> it was saved with (the route saves the placeholder 5.0): 70 percent
  text, 30 percent reactions when there is a reaction.
\<close>

definition combinedSentiment :: "real \<Rightarrow> reaction list \<Rightarrow> real option" where
  "combinedSentiment score reactions =
     (case reaction_loop (Some 0, 0) reactions of
        (reactionSentimentSum, reactionCount) \<Rightarrow>
          if 0 < reactionCount then
            js_plus (Some (score * (7 / 10)))
              (js_times (js_divide reactionSentimentSum (of_nat reactionCount))
                 (Some (3 / 10)))
          else Some score)"

section \<open>Trend analysis as the specification words it\<close>

text \<open>
  The daily points of a channel in the words of the specification (section 4.3): the
  means of its daily buckets of the last 5 days, in date order. \<open>k\<close> is the number of
  messages that a day needs to be a point: 1 when every bucket is a point, as the
  specification has it.
\<close>

definition spec_daily_means :: "nat \<Rightarrow> int \<Rightarrow> message list \<Rightarrow> string \<Rightarrow> real list" where
  "spec_daily_means k now ms c =
     (let rs = filter (\<lambda>m. channel_id m = c) (recent now 5 ms);
          on = (\<lambda>d. filter (\<lambda>m. DATE (timestamp m) = d) rs);
          days = filter (\<lambda>d. k \<le> length (on d))
                   (sort (remdups (map (\<lambda>m. DATE (timestamp m)) rs)))
      in map (\<lambda>d. AVG (map sentiment_score (on d))) days)"

text \<open>
  The least-squares slope in the words of the specification: the points are indexed
  \<open>x = 0, ..., n - 1\<close> in date order, \<open>y\<close> is the daily mean, and
  \<open>slope = (n \<Sigma>xy - \<Sigma>x \<Sigma>y) / (n \<Sigma>x\<^sup>2 - (\<Sigma>x)\<^sup>2)\<close>.
\<close>

definition spec_slope :: "real list \<Rightarrow> real" where
  "spec_slope ys =
     (let n = real (length ys);
          sxy = sum_list (map (\<lambda>i. real i * ys ! i) [0..<length ys]);
          sx = sum_list (map real [0..<length ys]);
          sy = sum_list ys;
          sxx = sum_list (map (\<lambda>i. real i * real i) [0..<length ys])
      in (n * sxy - sx * sy) / (n * sxx - sx * sx))"


section \<open>Facts about \<open>GROUP BY\<close>\<close>

text \<open>
  A group holds exactly the rows of its key, in their order, and is not empty; every
  row is in the group of its key; no key has two groups.
\<close>

lemma group_by_sound:
  "(k, g) \<in> set (group_by key xs) \<Longrightarrow> g = filter (\<lambda>y. key y = k) xs \<and> g \<noteq> []"
proof (induction key xs rule: group_by.induct)
  case (1 key)
  then show ?case by simp
next
  case (2 key x xs)
  let ?rest = "filter (\<lambda>y. key y \<noteq> key x) xs"
  from "2.prems" consider
    (head) "k = key x" "g = x # filter (\<lambda>y. key y = key x) xs"
    | (tail) "(k, g) \<in> set (group_by key ?rest)"
    by auto
  then show ?case
  proof cases
    case head
    then show ?thesis by simp
  next
    case tail
    from "2.IH" [OF tail] have g: "g = filter (\<lambda>y. key y = k) ?rest" and ne: "g \<noteq> []"
      by blast+
    from ne obtain y where "y \<in> set g" by (cases g) auto
    with g have "key y = k" "key y \<noteq> key x" by auto
    then have neq: "k \<noteq> key x" by auto
    have "filter (\<lambda>y. key y = k) ?rest = filter (\<lambda>y. key y = k) xs"
      using neq by (auto intro: filter_cong)
    with g ne neq show ?thesis by auto
  qed
qed

lemma group_by_complete:
  "x \<in> set xs \<Longrightarrow> (key x, filter (\<lambda>y. key y = key x) xs) \<in> set (group_by key xs)"
proof (induction key xs rule: group_by.induct)
  case (1 key)
  then show ?case by simp
next
  case (2 key z zs)
  show ?case
  proof (cases "key x = key z")
    case True
    then show ?thesis by simp
  next
    case False
    with "2.prems" have "x \<in> set (filter (\<lambda>y. key y \<noteq> key z) zs)" by auto
    from "2.IH" [OF this]
    have "(key x, filter (\<lambda>y. key y = key x) (filter (\<lambda>y. key y \<noteq> key z) zs))
      \<in> set (group_by key (filter (\<lambda>y. key y \<noteq> key z) zs))" .
    moreover have "filter (\<lambda>y. key y = key x) (filter (\<lambda>y. key y \<noteq> key z) zs)
      = filter (\<lambda>y. key y = key x) (z # zs)"
      using False by (auto intro: filter_cong)
    ultimately show ?thesis by simp
  qed
qed

lemma group_by_distinct: "distinct (map fst (group_by key xs))"
proof (induction key xs rule: group_by.induct)
  case (1 key)
  then show ?case by simp
next
  case (2 key x xs)
  have "key x \<notin> fst ` set (group_by key (filter (\<lambda>y. key y \<noteq> key x) xs))"
  proof
    assume "key x \<in> fst ` set (group_by key (filter (\<lambda>y. key y \<noteq> key x) xs))"
    then obtain g where "(key x, g) \<in> set (group_by key (filter (\<lambda>y. key y \<noteq> key x) xs))"
      by auto
    from group_by_sound [OF this] show False
      by (cases g) (auto simp: filter_eq_Cons_iff)
  qed
  with 2 show ?case by simp
qed

lemma group_by_single:
  "xs \<noteq> [] \<Longrightarrow> \<forall>x \<in> set xs. key x = k \<Longrightarrow> group_by key xs = [(k, xs)]"
  by (cases xs) (auto simp: filter_id_conv filter_empty_conv)

lemma group_by_iff:
  "(k, g) \<in> set (group_by key xs) \<longleftrightarrow> g = filter (\<lambda>y. key y = k) xs \<and> g \<noteq> []"
proof
  assume "(k, g) \<in> set (group_by key xs)"
  then show "g = filter (\<lambda>y. key y = k) xs \<and> g \<noteq> []" by (rule group_by_sound)
next
  assume a: "g = filter (\<lambda>y. key y = k) xs \<and> g \<noteq> []"
  then have g: "g = filter (\<lambda>y. key y = k) xs" and ne: "g \<noteq> []" by blast+
  from ne obtain x where "x \<in> set g" by (meson list.set_sel(1))
  then have x: "x \<in> set xs" "key x = k" unfolding g by auto
  from group_by_complete [OF x(1), of key]
  show "(k, g) \<in> set (group_by key xs)" unfolding x(2) g .
qed

section \<open>Streak detection\<close>

text \<open>
  Both \<open>ROW_NUMBER\<close>s of \<open>low_sentiment_days\<close> number the same rows in the same
  order, because only low days are left when they run: \<open>grp\<close> is 0 on every row, and
  the final \<open>GROUP BY channel_id, grp\<close> groups by channel alone.
\<close>

lemma grp_is_zero:
  assumes "r \<in> set (low_sentiment_days ds)"
  shows "grp r = 0"
proof -
  let ?rows = "filter (\<lambda>r. daily_sentiment r < 4) ds"
  have same: "ROW_NUMBER (\<lambda>r. (ds_channel_id r, if daily_sentiment r < 4 then 1 else 0 :: nat))
                ds_date ?rows r0
      = ROW_NUMBER ds_channel_id ds_date ?rows r0" if "r0 \<in> set ?rows" for r0
  proof -
    have "filter (\<lambda>r'. (ds_channel_id r', if daily_sentiment r' < 4 then 1 else 0 :: nat)
                       = (ds_channel_id r0, if daily_sentiment r0 < 4 then 1 else 0)
                     \<and> ds_date r' < ds_date r0) ?rows
        = filter (\<lambda>r'. ds_channel_id r' = ds_channel_id r0 \<and> ds_date r' < ds_date r0) ?rows"
      using that by (intro filter_cong) auto
    then show ?thesis by (simp only: ROW_NUMBER_def)
  qed
  from assms obtain r0 where "r0 \<in> set ?rows"
    and "grp r = int (ROW_NUMBER ds_channel_id ds_date ?rows r0)
               - int (ROW_NUMBER (\<lambda>r. (ds_channel_id r,
                                 if daily_sentiment r < 4 then 1 else 0 :: nat))
                               ds_date ?rows r0)"
    by (auto simp: low_sentiment_days_def Let_def)
  with same show ?thesis by simp
qed

text \<open>
  Claim C1. For one channel whose daily means over 8 consecutive present days are
  3, 3, 3, 5, 2, 2, 2, 2, the claim expects two streaks, days 1 to 3 and days 5 to 8.
  The query returns one row instead: the \<open>WHERE\<close> clause has removed day 4 before the
  rows are numbered, so every low day of the channel has \<open>grp = 0\<close>, and the seven low
  days are reported as one streak from day 1 to day 8 with mean 17/7.
\<close>

theorem C1_streaks_are_merged:
  "map (\<lambda>r. (ds_date r, daily_sentiment r))
     (daily_sentiment_cte 734400
       (map (\<lambda>(d, s). \<lparr>channel_id = ''C1'', user_id = ''U1'',
                         timestamp = d * 86400 + 43200, sentiment_score = s\<rparr>)
         [(1, 3), (2, 3), (3, 3), (4, 5), (5, 2), (6, 2), (7, 2), (8, 2)]))
   = [(1, 3), (2, 3), (3, 3), (4, 5), (5, 2), (6, 2), (7, 2), (8, 2)]
   \<and> consecutiveLowDays 734400
       (map (\<lambda>(d, s). \<lparr>channel_id = ''C1'', user_id = ''U1'',
                         timestamp = d * 86400 + 43200, sentiment_score = s\<rparr>)
         [(1, 3), (2, 3), (3, 3), (4, 5), (5, 2), (6, 2), (7, 2), (8, 2)])
   = [\<lparr>sk_channel_id = ''C1'', streak_start = 1, streak_end = 8,
        consecutive_days = 7, avg_sentiment_in_streak = 17 / 7\<rparr>]"
  by (simp add: consecutiveLowDays_def streaks_of_def low_sentiment_days_def
      daily_sentiment_cte_def recent_def DATE_def AVG_def MIN_col_def MAX_col_def
      ROW_NUMBER_def)

text \<open>
  Claim C3, as stated, fails: a channel with low days 1, 2, 4 and 5 and no message on
  day 3 gets a single streak of 4 days, from day 1 to day 5.
\<close>

theorem C3_gap_counterexample:
  "consecutiveLowDays 475200
     [\<lparr>channel_id = ''C1'', user_id = ''U1'', timestamp = 129600, sentiment_score = 3\<rparr>,
      \<lparr>channel_id = ''C1'', user_id = ''U1'', timestamp = 216000, sentiment_score = 3\<rparr>,
      \<lparr>channel_id = ''C1'', user_id = ''U1'', timestamp = 388800, sentiment_score = 3\<rparr>,
      \<lparr>channel_id = ''C1'', user_id = ''U1'', timestamp = 475200, sentiment_score = 3\<rparr>]
   = [\<lparr>sk_channel_id = ''C1'', streak_start = 1, streak_end = 5,
        consecutive_days = 4, avg_sentiment_in_streak = 3\<rparr>]"
  by (simp add: consecutiveLowDays_def streaks_of_def low_sentiment_days_def
      daily_sentiment_cte_def recent_def DATE_def AVG_def MIN_col_def MAX_col_def
      ROW_NUMBER_def)

text \<open>
  Claim C3, amended. For a channel whose daily rows are two 2-day spans of low
  sentiment (mean below 4.0) around one calendar day without a row, streak detection
  returns exactly one streak: it starts on the first day, ends on the last, counts 4
  days and averages the four daily means. The gap does not break the streak.
\<close>

theorem C3_gap_is_bridged:
  assumes "a < 4" and "b < 4" and "x < 4" and "y < 4"
  shows "streaks_of
     [\<lparr>ds_channel_id = c, ds_date = d, daily_sentiment = a\<rparr>,
      \<lparr>ds_channel_id = c, ds_date = d + 1, daily_sentiment = b\<rparr>,
      \<lparr>ds_channel_id = c, ds_date = d + 3, daily_sentiment = x\<rparr>,
      \<lparr>ds_channel_id = c, ds_date = d + 4, daily_sentiment = y\<rparr>]
   = [\<lparr>sk_channel_id = c, streak_start = d, streak_end = d + 4,
        consecutive_days = 4, avg_sentiment_in_streak = (a + b + x + y) / 4\<rparr>]"
  using assms
  by (simp add: streaks_of_def low_sentiment_days_def AVG_def MIN_col_def MAX_col_def
      ROW_NUMBER_def)

theorem C3_gap_is_bridged_witness:
  "(3::real) < 4 \<and> (2::real) < 4 \<and> (1::real) < 4
   \<and> streaks_of
     [\<lparr>ds_channel_id = ''C1'', ds_date = 10, daily_sentiment = 3\<rparr>,
      \<lparr>ds_channel_id = ''C1'', ds_date = 10 + 1, daily_sentiment = 2\<rparr>,
      \<lparr>ds_channel_id = ''C1'', ds_date = 10 + 3, daily_sentiment = 1\<rparr>,
      \<lparr>ds_channel_id = ''C1'', ds_date = 10 + 4, daily_sentiment = 2\<rparr>]
   = [\<lparr>sk_channel_id = ''C1'', streak_start = 10, streak_end = 10 + 4,
        consecutive_days = 4, avg_sentiment_in_streak = (3 + 2 + 1 + 2) / 4\<rparr>]"
  using C3_gap_is_bridged [of 3 2 1 2 "''C1''" 10] by simp

section \<open>Daily mood percentages\<close>






section \<open>Scores outside the range 1 to 10\<close>




section \<open>Weekly buckets\<close>





section \<open>Users at risk\<close>






section \<open>Alerts per channel\<close>






section \<open>Emoji sentiment\<close>

text \<open>
  Claim C10. The claim expects a value from 1 to 10 for every emoji name, and 5 for a
  name that is not in the table. The lookup \<open>emojiMap[emoji] || 5\<close> also finds the
  members that the object literal inherits: for the name \<open>constructor\<close> the result is
  the function \<open>Object\<close>, not a number, and the combined score of a message with that
  reaction is NaN.
\<close>

theorem C10_inherited_property:
  "getEmojiSentiment ''constructor'' = JFunction ''Object''
   \<and> combinedSentiment 5 [\<lparr>rx_name = ''constructor'', rx_count = 1\<rparr>] = None"
  by (simp add: getEmojiSentiment_def emojiMap_get_def emojiMap_def Object_prototype_def
      combinedSentiment_def)

text \<open>
  For every name that \<open>Object.prototype\<close> does not define, the result is a number
  from 1 to 10.
\<close>

lemma emojiMap_values: "\<forall>(k, v) \<in> set emojiMap. 1 \<le> v \<and> v \<le> 10"
  by (simp add: emojiMap_def)

lemma getEmojiSentiment_range:
  assumes "map_of Object_prototype emoji = None"
  shows "\<exists>v. getEmojiSentiment emoji = JNumber v \<and> 1 \<le> v \<and> v \<le> 10"
proof (cases "map_of emojiMap emoji")
  case None
  with assms show ?thesis by (simp add: getEmojiSentiment_def emojiMap_get_def)
next
  case (Some v)
  then have "(emoji, v) \<in> set emojiMap" by (rule map_of_SomeD)
  with emojiMap_values have "1 \<le> v \<and> v \<le> 10" by blast
  with Some show ?thesis by (simp add: getEmojiSentiment_def emojiMap_get_def)
qed

text \<open>
  When no reaction of a message has such a name, the loop adds a number from 1 to 10
  per counted reaction, and the combined score of a message whose own score is from 1
  to 10 is from 1 to 10 as well.
\<close>

lemma loop_range:
  assumes "\<forall>r \<in> set rs. map_of Object_prototype (rx_name r) = None"
  shows "\<exists>s' n'. reaction_loop (Some s, n) rs = (Some s', n')
           \<and> n \<le> n' \<and> (rs \<noteq> [] \<longrightarrow> n < n')
           \<and> real (n' - n) \<le> s' - s \<and> s' - s \<le> 10 * real (n' - n)"
  using assms
proof (induction rs arbitrary: s n)
  case Nil
  then show ?case by simp
next
  case (Cons r rs)
  define count where "count = (if rx_count r = 0 then 1 else rx_count r)"
  have count: "0 < count" by (simp add: count_def)
  from Cons.prems have "map_of Object_prototype (rx_name r) = None" by simp
  from getEmojiSentiment_range [OF this]
  obtain v where v: "getEmojiSentiment (rx_name r) = JNumber v" "1 \<le> v" "v \<le> 10" by blast
  from Cons.prems have rest: "\<forall>r \<in> set rs. map_of Object_prototype (rx_name r) = None" by simp
  from Cons.IH [OF rest, of "s + v * real count" "n + count"]
  obtain s' n' where step: "reaction_loop (Some (s + v * real count), n + count) rs = (Some s', n')"
    and n': "n + count \<le> n'"
    and lo: "real (n' - (n + count)) \<le> s' - (s + v * real count)"
    and hi: "s' - (s + v * real count) \<le> 10 * real (n' - (n + count))"
    by blast
  have eq: "reaction_loop (Some s, n) (r # rs) = (Some s', n')"
    using step v(1) by (simp add: count_def Let_def)
  have vc: "real count \<le> v * real count" "v * real count \<le> 10 * real count"
    using v(2,3) count by (simp_all add: mult_right_mono)
  have split: "real (n' - n) = real (n' - (n + count)) + real count"
    using n' by simp
  have "n \<le> n'" and "n < n'" using n' count by simp_all
  moreover have "real (n' - n) \<le> s' - s" using lo vc(1) split by linarith
  moreover have "s' - s \<le> 10 * real (n' - n)" using hi vc(2) split by linarith
  ultimately show ?case using eq by blast
qed

lemma combinedSentiment_range:
  assumes "1 \<le> score" and "score \<le> 10"
    and "\<forall>r \<in> set reactions. map_of Object_prototype (rx_name r) = None"
  shows "\<exists>v. combinedSentiment score reactions = Some v \<and> 1 \<le> v \<and> v \<le> 10"
proof (cases "reactions = []")
  case True
  with assms show ?thesis by (simp add: combinedSentiment_def)
next
  case False
  from loop_range [OF assms(3), of 0 0] False
  obtain s n where loop: "reaction_loop (Some 0, 0) reactions = (Some s, n)"
    and n: "0 < n" and lo: "real n \<le> s" and hi: "s \<le> 10 * real n"
    by auto
  define a where "a = s / real n"
  from n lo hi have avg: "1 \<le> a" "a \<le> 10"
    by (simp_all add: a_def field_simps)
  have "combinedSentiment score reactions = Some (score * (7 / 10) + a * (3 / 10))"
    using loop n by (simp add: combinedSentiment_def a_def)
  moreover have "1 \<le> score * (7 / 10) + a * (3 / 10)"
    using assms(1) avg(1) by linarith
  moreover have "score * (7 / 10) + a * (3 / 10) \<le> 10"
    using assms(2) avg(2) by linarith
  ultimately show ?thesis by blast
qed

section \<open>Trend slope\<close>

text \<open>
  The days \<open>d, d + 1, ...\<close> of one channel are numbered \<open>1, 2, ...\<close> by
  \<open>ROW_NUMBER\<close>, and the denominator of the slope over \<open>n\<close> such days is positive
  from two days on.
\<close>

lemma length_filter_less_upt: "i \<le> n \<Longrightarrow> length (filter (\<lambda>j. j < i) [0..<n]) = i"
  by (induction n) (auto simp: le_Suc_eq)

lemma trend_points_series:
  "trend_points (map (\<lambda>i. \<lparr>ds_channel_id = c, ds_date = d + int i, daily_sentiment = f i\<rparr>) [0..<n])
   = map (\<lambda>i. \<lparr>tp_channel_id = c, tp_date = d + int i, tp_daily_sentiment = f i,
                 day_num = Suc i\<rparr>) [0..<n]"
  by (simp add: trend_points_def ROW_NUMBER_def filter_map o_def length_filter_less_upt)

lemma trend_analysis_single:
  assumes "pts \<noteq> []" and "\<forall>p \<in> set pts. tp_channel_id p = c"
  shows "map trend_slope (trend_analysis pts) = [trend_slope_of pts]"
  using group_by_single [OF assms] by (simp add: trend_analysis_def)

lemma sum_day_num: "2 * sum_list (map Suc [0..<n]) = n * (n + 1)"
  by (induction n) simp_all

lemma sum_day_num_sq: "6 * sum_list (map (\<lambda>i. Suc i * Suc i) [0..<n]) = n * (n + 1) * (2 * n + 1)"
  by (induction n) (simp_all add: algebra_simps)

lemma denominator_positive:
  assumes "2 \<le> n"
  shows "sum_list (map Suc [0..<n]) * sum_list (map Suc [0..<n])
         < n * sum_list (map (\<lambda>i. Suc i * Suc i) [0..<n])"
proof -
  let ?s = "sum_list (map Suc [0..<n])"
  let ?q = "sum_list (map (\<lambda>i. Suc i * Suc i) [0..<n])"
  have "12 * (?s * ?s) = 3 * ((2 * ?s) * (2 * ?s))" by simp
  also have "\<dots> = (n * n * (n + 1)) * (3 * (n + 1))"
    unfolding sum_day_num by (simp add: algebra_simps)
  also have "\<dots> < (n * n * (n + 1)) * (2 * (2 * n + 1))"
    using assms by (intro mult_strict_left_mono) auto
  also have "\<dots> = 2 * n * (6 * ?q)"
    unfolding sum_day_num_sq by (simp add: algebra_simps)
  also have "\<dots> = 12 * (n * ?q)" by simp
  finally show ?thesis by simp
qed

lemma constant_slope:
  assumes "2 \<le> n"
  shows "trend_slope_of (map (\<lambda>i. \<lparr>tp_channel_id = c, tp_date = d + int i,
            tp_daily_sentiment = k, day_num = Suc i\<rparr>) [0..<n]) = Some 0"
proof -
  define pts where "pts = map (\<lambda>i. \<lparr>tp_channel_id = c, tp_date = d + int i,
            tp_daily_sentiment = k, day_num = Suc i\<rparr>) [0..<n]"
  define S where "S = sum_list (map Suc [0..<n])"
  define Q where "Q = sum_list (map (\<lambda>i. Suc i * Suc i) [0..<n])"
  have len: "length pts = n" by (simp add: pts_def)
  have sx: "sum_list (map day_num pts) = S"
    unfolding pts_def S_def by (simp only: list.map_comp o_def trend_point.select_convs)
  have sxx: "sum_list (map (\<lambda>p. day_num p * day_num p) pts) = Q"
    unfolding pts_def Q_def by (simp only: list.map_comp o_def trend_point.select_convs)
  have "sum_list (map (\<lambda>i. k) [0..<n]) = real n * k"
    by (induction n) (simp_all add: algebra_simps)
  then have sy: "sum_list (map tp_daily_sentiment pts) = real n * k"
    unfolding pts_def by (simp only: list.map_comp o_def trend_point.select_convs)
  have "sum_list (map (\<lambda>i. real (Suc i) * k) [0..<n]) = real (sum_list (map Suc [0..<n])) * k"
    by (induction n) (simp_all add: algebra_simps)
  then have sxy: "sum_list (map (\<lambda>p. real (day_num p) * tp_daily_sentiment p) pts) = real S * k"
    unfolding pts_def S_def by (simp only: list.map_comp o_def trend_point.select_convs)
  from denominator_positive [OF assms] have "S * S < n * Q" by (simp only: S_def Q_def)
  then have den: "int (n * Q) - int (S * S) \<noteq> 0" by linarith
  have "trend_slope_of pts
      = Some ((real n * (real S * k) - real S * (real n * k)) / real_of_int (int (n * Q) - int (S * S)))"
    unfolding trend_slope_of_def Let_def len sx sxx sy sxy using den by (simp only: if_False)
  also have "\<dots> = Some 0" by simp
  finally show ?thesis by (simp only: pts_def)
qed

section \<open>Declining trends\<close>


lemma trend_days_iff:
  "r \<in> set (trend_days now ms) \<longleftrightarrow>
     (let g = filter (\<lambda>m. channel_id m = ds_channel_id r \<and> DATE (timestamp m) = ds_date r)
                (recent now 5 ms)
      in 3 \<le> length g \<and> daily_sentiment r = AVG (map sentiment_score g))"
proof -
  let ?key = "\<lambda>m. (channel_id m, DATE (timestamp m))"
  let ?G = "\<lambda>k. filter (\<lambda>m. ?key m = k) (recent now 5 ms)"
  have "r \<in> set (trend_days now ms) \<longleftrightarrow>
     (\<exists>k. 3 \<le> length (?G k) \<and> r = \<lparr>ds_channel_id = fst k, ds_date = snd k,
                   daily_sentiment = AVG (map sentiment_score (?G k))\<rparr>)"
    unfolding trend_days_def set_map set_filter image_iff
    by (auto simp: group_by_iff)
  also have "\<dots> \<longleftrightarrow> 3 \<le> length (?G (ds_channel_id r, ds_date r))
     \<and> daily_sentiment r = AVG (map sentiment_score (?G (ds_channel_id r, ds_date r)))"
    by (cases r) auto
  finally show ?thesis by (simp add: Let_def prod_eq_iff)
qed

text \<open>
  The days of a channel are pairwise different, so the points of a channel are these
  days, each with its mean and with one more than the number of earlier days.
\<close>

lemma trend_days_distinct:
  "distinct (map (\<lambda>r. (ds_channel_id r, ds_date r)) (trend_days now ms))"
proof -
  let ?G = "group_by (\<lambda>m. (channel_id m, DATE (timestamp m))) (recent now 5 ms)"
  have "map (\<lambda>r. (ds_channel_id r, ds_date r)) (trend_days now ms)
      = map fst (filter (\<lambda>(k, g). 3 \<le> length g) ?G)"
    by (simp add: trend_days_def case_prod_beta o_def)
  moreover have "distinct (map fst (filter (\<lambda>(k, g). 3 \<le> length g) ?G))"
    using group_by_distinct by (rule distinct_map_filter)
  ultimately show ?thesis by simp
qed

lemma channel_days_distinct:
  "distinct (map ds_date (filter (\<lambda>r. ds_channel_id r = c) (trend_days now ms)))"
proof -
  let ?rows = "filter (\<lambda>r. ds_channel_id r = c) (trend_days now ms)"
  have "distinct (map (\<lambda>r. (ds_channel_id r, ds_date r)) ?rows)"
    using trend_days_distinct by (rule distinct_map_filter)
  moreover have "map (\<lambda>r. (ds_channel_id r, ds_date r)) ?rows = map (Pair c) (map ds_date ?rows)"
    by (simp add: o_def cong: map_cong)
  ultimately have "distinct (map (Pair c) (map ds_date ?rows))" by (simp only:)
  then show ?thesis by (rule distinct_map [THEN iffD1, THEN conjunct1])
qed


lemma channel_days_set:
  "set (map ds_date (filter (\<lambda>r. ds_channel_id r = c) (trend_days now ms)))
   = {d. 3 \<le> length (filter (\<lambda>m. channel_id m = c \<and> DATE (timestamp m) = d)
                        (recent now 5 ms))}"
proof (intro set_eqI iffI)
  fix d assume "d \<in> set (map ds_date (filter (\<lambda>r. ds_channel_id r = c) (trend_days now ms)))"
  then obtain r where "r \<in> set (trend_days now ms)" "ds_channel_id r = c" "ds_date r = d"
    by auto
  then show "d \<in> {d. 3 \<le> length (filter (\<lambda>m. channel_id m = c \<and> DATE (timestamp m) = d)
                        (recent now 5 ms))}"
    by (auto simp: trend_days_iff Let_def)
next
  fix d assume d: "d \<in> {d. 3 \<le> length (filter (\<lambda>m. channel_id m = c \<and> DATE (timestamp m) = d)
                        (recent now 5 ms))}"
  let ?r = "\<lparr>ds_channel_id = c, ds_date = d, daily_sentiment = AVG (map sentiment_score
      (filter (\<lambda>m. channel_id m = c \<and> DATE (timestamp m) = d) (recent now 5 ms)))\<rparr>"
  from d have "?r \<in> set (trend_days now ms)" by (simp add: trend_days_iff Let_def)
  then have "?r \<in> set (filter (\<lambda>r. ds_channel_id r = c) (trend_days now ms))" by simp
  then have "ds_date ?r \<in> set (map ds_date (filter (\<lambda>r. ds_channel_id r = c) (trend_days now ms)))"
    unfolding set_map by (rule imageI)
  then show "d \<in> set (map ds_date (filter (\<lambda>r. ds_channel_id r = c) (trend_days now ms)))"
    by simp
qed

lemma channel_points:
  "filter (\<lambda>p. tp_channel_id p = c) (trend_points (trend_days now ms))
   = map (\<lambda>d. \<lparr>tp_channel_id = c, tp_date = d,
          tp_daily_sentiment = AVG (map sentiment_score
            (filter (\<lambda>m. channel_id m = c \<and> DATE (timestamp m) = d) (recent now 5 ms))),
          day_num = Suc (length (filter (\<lambda>d'. d' < d)
            (map ds_date (filter (\<lambda>r. ds_channel_id r = c) (trend_days now ms)))))\<rparr>)
       (map ds_date (filter (\<lambda>r. ds_channel_id r = c) (trend_days now ms)))"
proof -
  let ?rows = "trend_days now ms"
  let ?rc = "filter (\<lambda>r. ds_channel_id r = c) ?rows"
  have rn: "ROW_NUMBER ds_channel_id ds_date ?rows r
      = Suc (length (filter (\<lambda>d'. d' < ds_date r) (map ds_date ?rc)))"
    if "ds_channel_id r = c" for r
  proof -
    have "filter (\<lambda>r'. ds_channel_id r' = ds_channel_id r \<and> ds_date r' < ds_date r) ?rows
        = filter (\<lambda>r'. ds_date r' < ds_date r) ?rc"
      using that by (simp add: conj_commute)
    then show ?thesis
      by (simp add: ROW_NUMBER_def filter_map o_def)
  qed
  have "filter (\<lambda>p. tp_channel_id p = c) (trend_points ?rows)
      = map (\<lambda>r. \<lparr>tp_channel_id = ds_channel_id r, tp_date = ds_date r,
                tp_daily_sentiment = daily_sentiment r,
                day_num = ROW_NUMBER ds_channel_id ds_date ?rows r\<rparr>) ?rc"
    by (simp add: trend_points_def filter_map o_def)
  also have "\<dots> = map (\<lambda>r. \<lparr>tp_channel_id = c, tp_date = ds_date r,
          tp_daily_sentiment = AVG (map sentiment_score
            (filter (\<lambda>m. channel_id m = c \<and> DATE (timestamp m) = ds_date r) (recent now 5 ms))),
          day_num = Suc (length (filter (\<lambda>d'. d' < ds_date r) (map ds_date ?rc)))\<rparr>) ?rc"
  proof (rule map_cong [OF refl])
    fix r assume "r \<in> set ?rc"
    then have r: "r \<in> set ?rows" "ds_channel_id r = c" by auto
    from r(1) have "daily_sentiment r = AVG (map sentiment_score
            (filter (\<lambda>m. channel_id m = c \<and> DATE (timestamp m) = ds_date r) (recent now 5 ms)))"
      by (simp add: trend_days_iff Let_def r(2))
    with r(2) rn [OF r(2)]
    show "\<lparr>tp_channel_id = ds_channel_id r, tp_date = ds_date r,
                tp_daily_sentiment = daily_sentiment r,
                day_num = ROW_NUMBER ds_channel_id ds_date ?rows r\<rparr>
        = \<lparr>tp_channel_id = c, tp_date = ds_date r,
          tp_daily_sentiment = AVG (map sentiment_score
            (filter (\<lambda>m. channel_id m = c \<and> DATE (timestamp m) = ds_date r) (recent now 5 ms))),
          day_num = Suc (length (filter (\<lambda>d'. d' < ds_date r) (map ds_date ?rc)))\<rparr>"
      by simp
  qed
  finally show ?thesis by (simp add: o_def)
qed

text \<open>
  The number that \<open>ROW_NUMBER\<close> gives a day is its position in date order, and the
  slope of the query, over \<open>x = 1, ..., n\<close>, is the slope of the specification, over
  \<open>x = 0, ..., n - 1\<close>.
\<close>

lemma filter_less_nth:
  assumes "sorted xs" and "distinct xs" and "i < length xs"
  shows "filter (\<lambda>x. x < xs ! i) xs = take i (xs :: 'a::linorder list)"
proof -
  from assms have strict: "sorted_wrt (<) xs" by (simp add: strict_sorted_iff)
  have low: "x < xs ! i" if "x \<in> set (take i xs)" for x
  proof -
    from that obtain j where "j < i" "x = xs ! j"
      using assms(3) by (auto simp: in_set_conv_nth)
    with strict assms(3) show ?thesis by (simp add: sorted_wrt_nth_less)
  qed
  have high: "\<not> x < xs ! i" if "x \<in> set (drop i xs)" for x
  proof -
    from that obtain j where "j < length xs - i" "x = xs ! (i + j)"
      by (auto simp: in_set_conv_nth)
    then have j: "i + j < length xs" "x = xs ! (i + j)" by simp_all
    from assms(1) j(1) have "xs ! i \<le> xs ! (i + j)" by (simp add: sorted_nth_mono)
    with j show ?thesis by simp
  qed
  have "filter (\<lambda>x. x < xs ! i) xs
      = filter (\<lambda>x. x < xs ! i) (take i xs) @ filter (\<lambda>x. x < xs ! i) (drop i xs)"
    by (simp only: filter_append [symmetric] append_take_drop_id)
  also have "filter (\<lambda>x. x < xs ! i) (take i xs) = take i xs"
    using low by (simp add: filter_id_conv)
  also have "filter (\<lambda>x. x < xs ! i) (drop i xs) = []"
    using high by (simp add: filter_empty_conv)
  finally show ?thesis by simp
qed

lemma rank_of_nth:
  assumes "sorted xs" and "distinct xs" and "distinct L" and "set L = set xs"
    and "i < length xs"
  shows "length (filter (\<lambda>x. x < xs ! i) L) = i" (is "length (filter ?P L) = i")
proof -
  have "length (filter ?P L) = card ({x. ?P x} \<inter> set L)"
    using assms(3) by (rule distinct_length_filter)
  also have "\<dots> = card ({x. ?P x} \<inter> set xs)" by (simp only: assms(4))
  also have "\<dots> = length (filter ?P xs)"
    using assms(2) by (rule distinct_length_filter [symmetric])
  also have "\<dots> = i"
    using assms(5) by (simp add: filter_less_nth [OF assms(1,2,5)])
  finally show ?thesis .
qed

lemma sum_list_same_set:
  fixes f :: "'a \<Rightarrow> 'b::comm_monoid_add"
  assumes "distinct L" and "distinct xs" and "set L = set xs"
  shows "sum_list (map f L) = sum_list (map f xs)"
  by (simp add: sum_list_distinct_conv_sum_set assms)

lemma map_by_index: "map f xs = map (\<lambda>i. f (xs ! i)) [0..<length xs]"
proof -
  have "map f (map ((!) xs) [0..<length xs]) = map f xs" by (simp only: map_nth)
  then show ?thesis by (simp only: map_map o_def)
qed

lemma shifted_slope:
  assumes "2 \<le> length ys"
  shows "(let n = length ys;
              sxy = sum_list (map (\<lambda>i. real (Suc i) * ys ! i) [0..<n]);
              sx = sum_list (map Suc [0..<n]);
              sy = sum_list ys;
              sxx = sum_list (map (\<lambda>i. Suc i * Suc i) [0..<n]);
              den = int (n * sxx) - int (sx * sx)
          in if den = 0 then None
             else Some ((of_nat n * sxy - of_nat sx * sy) / of_int den))
         = Some (spec_slope ys)"
proof -
  define n where "n = length ys"
  define S where "S = sum_list (map Suc [0..<n])"
  define Q where "Q = sum_list (map (\<lambda>i. Suc i * Suc i) [0..<n])"
  define sy where "sy = sum_list ys"
  define sxy where "sxy = sum_list (map (\<lambda>i. real (Suc i) * ys ! i) [0..<n])"
  define S0 where "S0 = sum_list (map real [0..<n])"
  define Q0 where "Q0 = sum_list (map (\<lambda>i. real i * real i) [0..<n])"
  define sxy0 where "sxy0 = sum_list (map (\<lambda>i. real i * ys ! i) [0..<n])"
  have S: "real S = S0 + real n"
    unfolding S_def S0_def by (induction n) simp_all
  have Q: "real Q = Q0 + 2 * S0 + real n"
    unfolding Q_def S0_def Q0_def by (induction n) (simp_all add: algebra_simps)
  have "sum_list (map (\<lambda>i. ys ! i) [0..<length ys]) = sum_list ys"
    by (simp only: map_nth)
  then have sy_idx: "sum_list (map (\<lambda>i. ys ! i) [0..<n]) = sy"
    by (simp only: n_def sy_def)
  have "sum_list (map (\<lambda>i. real (Suc i) * ys ! i) [0..<m])
      = sum_list (map (\<lambda>i. real i * ys ! i) [0..<m]) + sum_list (map (\<lambda>i. ys ! i) [0..<m])" for m
    by (induction m) (simp_all add: algebra_simps)
  then have sxy: "sxy = sxy0 + sy"
    unfolding sxy_def sxy0_def by (simp only: sy_idx)
  from denominator_positive [of n] assms have "S * S < n * Q"
    by (simp only: S_def Q_def n_def)
  then have den: "int (n * Q) - int (S * S) \<noteq> 0" by linarith
  have den_eq: "real_of_int (int (n * Q) - int (S * S)) = real n * Q0 - S0 * S0"
    by (simp add: S Q algebra_simps)
  have num_eq: "real n * sxy - real S * sy = real n * sxy0 - S0 * sy"
    by (simp add: S sxy algebra_simps)
  have "(let n = length ys;
              sxy = sum_list (map (\<lambda>i. real (Suc i) * ys ! i) [0..<n]);
              sx = sum_list (map Suc [0..<n]);
              sy = sum_list ys;
              sxx = sum_list (map (\<lambda>i. Suc i * Suc i) [0..<n]);
              den = int (n * sxx) - int (sx * sx)
          in if den = 0 then None
             else Some ((of_nat n * sxy - of_nat sx * sy) / of_int den))
      = Some ((real n * sxy - real S * sy) / real_of_int (int (n * Q) - int (S * S)))"
    unfolding Let_def n_def [symmetric] S_def [symmetric] Q_def [symmetric]
      sy_def [symmetric] sxy_def [symmetric]
    using den by (simp only: if_False)
  also have "\<dots> = Some ((real n * sxy0 - S0 * sy) / (real n * Q0 - S0 * S0))"
    by (simp only: den_eq num_eq)
  also have "\<dots> = Some (spec_slope ys)"
    unfolding spec_slope_def Let_def n_def [symmetric] S0_def [symmetric] Q0_def [symmetric]
      sy_def [symmetric] sxy0_def [symmetric] ..
  finally show ?thesis .
qed

lemma spec_days:
  fixes now :: int and ms :: "message list" and c :: string
  defines "rs \<equiv> filter (\<lambda>m. channel_id m = c) (recent now 5 ms)"
  defines "days \<equiv> filter (\<lambda>d. 3 \<le> length (filter (\<lambda>m. DATE (timestamp m) = d) rs))
                   (sort (remdups (map (\<lambda>m. DATE (timestamp m)) rs)))"
  shows "sorted days" and "distinct days"
    and "set days = {d. 3 \<le> length (filter (\<lambda>m. channel_id m = c \<and> DATE (timestamp m) = d)
                        (recent now 5 ms))}"
    and "spec_daily_means 3 now ms c
         = map (\<lambda>d. AVG (map sentiment_score
             (filter (\<lambda>m. channel_id m = c \<and> DATE (timestamp m) = d) (recent now 5 ms)))) days"
proof -
  have on: "filter (\<lambda>m. DATE (timestamp m) = d) rs
      = filter (\<lambda>m. channel_id m = c \<and> DATE (timestamp m) = d) (recent now 5 ms)" for d
    by (simp add: rs_def)
  show "sorted days" by (simp add: days_def sorted_wrt_filter)
  show "distinct days" by (simp add: days_def)
  show "set days = {d. 3 \<le> length (filter (\<lambda>m. channel_id m = c \<and> DATE (timestamp m) = d)
                        (recent now 5 ms))}"
  proof (intro set_eqI iffI)
    fix d assume "d \<in> set days"
    then show "d \<in> {d. 3 \<le> length (filter (\<lambda>m. channel_id m = c \<and> DATE (timestamp m) = d)
                        (recent now 5 ms))}"
      by (simp add: days_def on)
  next
    fix d assume d: "d \<in> {d. 3 \<le> length (filter (\<lambda>m. channel_id m = c \<and> DATE (timestamp m) = d)
                        (recent now 5 ms))}"
    then have len: "3 \<le> length (filter (\<lambda>m. DATE (timestamp m) = d) rs)" by (simp add: on)
    then have "filter (\<lambda>m. DATE (timestamp m) = d) rs \<noteq> []" by auto
    then obtain m where "m \<in> set rs" "DATE (timestamp m) = d"
      by (auto simp: filter_empty_conv)
    then have "d \<in> set (map (\<lambda>m. DATE (timestamp m)) rs)" by auto
    with len show "d \<in> set days" by (simp add: days_def)
  qed
  show "spec_daily_means 3 now ms c
         = map (\<lambda>d. AVG (map sentiment_score
             (filter (\<lambda>m. channel_id m = c \<and> DATE (timestamp m) = d) (recent now 5 ms)))) days"
    unfolding spec_daily_means_def Let_def rs_def [symmetric] days_def on ..
qed


lemma channel_points_indexed:
  fixes h :: "trend_point \<Rightarrow> 'a::comm_monoid_add"
    and now :: int and ms :: "message list" and c :: string
  defines "pts \<equiv> filter (\<lambda>p. tp_channel_id p = c) (trend_points (trend_days now ms))"
  defines "ys \<equiv> spec_daily_means 3 now ms c"
  shows "length pts = length ys"
    and "\<exists>days. sum_list (map h pts)
           = sum_list (map (\<lambda>i. h \<lparr>tp_channel_id = c, tp_date = days ! i,
                tp_daily_sentiment = ys ! i, day_num = Suc i\<rparr>) [0..<length ys])"
proof -
  define rs where "rs = filter (\<lambda>m. channel_id m = c) (recent now 5 ms)"
  define days where "days = filter (\<lambda>d. 3 \<le> length (filter (\<lambda>m. DATE (timestamp m) = d) rs))
                   (sort (remdups (map (\<lambda>m. DATE (timestamp m)) rs)))"
  define L where "L = map ds_date (filter (\<lambda>r. ds_channel_id r = c) (trend_days now ms))"
  define mu where "mu = (\<lambda>d. AVG (map sentiment_score
             (filter (\<lambda>m. channel_id m = c \<and> DATE (timestamp m) = d) (recent now 5 ms))))"
  define pt where "pt = (\<lambda>d. \<lparr>tp_channel_id = c, tp_date = d, tp_daily_sentiment = mu d,
          day_num = Suc (length (filter (\<lambda>d'. d' < d) L))\<rparr>)"
  note sd = spec_days [where now = now and c = c and ms = ms, folded rs_def, folded days_def, folded mu_def]
  have sorted: "sorted days" and dist: "distinct days" by (rule sd)+
  have ys: "ys = map mu days" unfolding ys_def by (rule sd(4))
  have distL: "distinct L" unfolding L_def by (rule channel_days_distinct)
  have setL: "set L = set days" unfolding L_def channel_days_set sd(3) ..
  have pts: "pts = map pt L"
    unfolding pts_def pt_def mu_def L_def by (rule channel_points)
  have "length L = card (set L)" using distL by (simp add: distinct_card)
  also have "\<dots> = length days" using dist by (simp add: setL distinct_card)
  finally show "length pts = length ys" by (simp add: pts ys)
  have "sum_list (map h pts) = sum_list (map (\<lambda>d. h (pt d)) L)"
    by (simp add: pts o_def)
  also have "\<dots> = sum_list (map (\<lambda>d. h (pt d)) days)"
    using distL dist setL by (rule sum_list_same_set)
  also have "\<dots> = sum_list (map (\<lambda>i. h (pt (days ! i))) [0..<length days])"
    by (subst map_by_index) simp
  also have "\<dots> = sum_list (map (\<lambda>i. h \<lparr>tp_channel_id = c, tp_date = days ! i,
                tp_daily_sentiment = ys ! i, day_num = Suc i\<rparr>) [0..<length days])"
  proof -
    have eq: "pt (days ! i) = \<lparr>tp_channel_id = c, tp_date = days ! i,
                tp_daily_sentiment = ys ! i, day_num = Suc i\<rparr>" if "i < length days" for i
      using that rank_of_nth [OF sorted dist distL setL that] by (simp add: pt_def ys)
    have "map (\<lambda>i. h (pt (days ! i))) [0..<length days]
        = map (\<lambda>i. h \<lparr>tp_channel_id = c, tp_date = days ! i,
                tp_daily_sentiment = ys ! i, day_num = Suc i\<rparr>) [0..<length days]"
      by (rule map_cong [OF refl]) (simp add: eq)
    then show ?thesis by (simp only:)
  qed
  finally show "\<exists>days. sum_list (map h pts)
           = sum_list (map (\<lambda>i. h \<lparr>tp_channel_id = c, tp_date = days ! i,
                tp_daily_sentiment = ys ! i, day_num = Suc i\<rparr>) [0..<length ys])"
    by (auto simp: ys)
qed

lemma channel_slope:
  fixes now :: int and ms :: "message list" and c :: string
  defines "pts \<equiv> filter (\<lambda>p. tp_channel_id p = c) (trend_points (trend_days now ms))"
  defines "ys \<equiv> spec_daily_means 3 now ms c"
  assumes n: "2 \<le> length ys"
  shows "trend_slope_of pts = Some (spec_slope ys)"
    and "AVG (map tp_daily_sentiment pts) = AVG ys"
proof -
  have len: "length pts = length ys"
    unfolding pts_def ys_def by (rule channel_points_indexed(1))
  have sx: "sum_list (map day_num pts) = sum_list (map Suc [0..<length ys])"
    using channel_points_indexed(2) [of day_num c now ms]
    unfolding pts_def ys_def by (auto simp only: trend_point.select_convs)
  have sxx: "sum_list (map (\<lambda>p. day_num p * day_num p) pts)
      = sum_list (map (\<lambda>i. Suc i * Suc i) [0..<length ys])"
    using channel_points_indexed(2) [of "\<lambda>p. day_num p * day_num p" c now ms]
    unfolding pts_def ys_def by (auto simp only: trend_point.select_convs)
  have "sum_list (map tp_daily_sentiment pts) = sum_list (map (\<lambda>i. ys ! i) [0..<length ys])"
    using channel_points_indexed(2) [of tp_daily_sentiment c now ms]
    unfolding pts_def ys_def by (auto simp only: trend_point.select_convs)
  then have sy: "sum_list (map tp_daily_sentiment pts) = sum_list ys"
    by (simp only: map_nth)
  have sxy: "sum_list (map (\<lambda>p. real (day_num p) * tp_daily_sentiment p) pts)
      = sum_list (map (\<lambda>i. real (Suc i) * ys ! i) [0..<length ys])"
    using channel_points_indexed(2) [of "\<lambda>p. real (day_num p) * tp_daily_sentiment p" c now ms]
    unfolding pts_def ys_def by (auto simp only: trend_point.select_convs)
  show "trend_slope_of pts = Some (spec_slope ys)"
    unfolding trend_slope_of_def Let_def len sx sxx sy sxy
    using shifted_slope [OF n, unfolded Let_def] .
  show "AVG (map tp_daily_sentiment pts) = AVG ys"
    by (simp add: AVG_def sy len)
qed

text \<open>
  The slope of the specification on a constant series is 0, and the row that
  \<open>trend_analysis\<close> has for a channel carries the slope of the points of that channel.
\<close>

lemma spec_slope_constant: "spec_slope (replicate n k) = 0"
proof -
  have "map (\<lambda>i. real i * replicate n k ! i) [0..<n] = map (\<lambda>i. real i * k) [0..<n]"
    by (rule map_cong [OF refl]) simp
  moreover have "sum_list (map (\<lambda>i. real i * k) [0..<m]) = sum_list (map real [0..<m]) * k" for m
    by (induction m) (simp_all add: algebra_simps)
  ultimately have "sum_list (map (\<lambda>i. real i * replicate n k ! i) [0..<n])
      = sum_list (map real [0..<n]) * k"
    by (simp only:)
  then show ?thesis
    by (simp add: spec_slope_def Let_def sum_list_replicate)
qed

lemma trend_row_of_channel:
  assumes "r \<in> set (trend_analysis pts)"
  shows "trend_slope r = trend_slope_of (filter (\<lambda>p. tp_channel_id p = tr_channel_id r) pts)"
proof -
  from assms obtain c g where cg: "(c, g) \<in> set (group_by tp_channel_id pts)"
    and r: "tr_channel_id r = c" "trend_slope r = trend_slope_of g"
    by (auto simp: trend_analysis_def)
  from group_by_sound [OF cg] have "g = filter (\<lambda>p. tp_channel_id p = c) pts" by blast
  with r show ?thesis by simp
qed

lemma constant_series_slope:
  assumes "3 \<le> n" and "spec_daily_means 3 now ms c = replicate n k"
    and "r \<in> set (trend_analysis (trend_points (trend_days now ms)))" and "tr_channel_id r = c"
  shows "trend_slope r = Some 0"
proof -
  from assms(1,2) have "2 \<le> length (spec_daily_means 3 now ms c)" by simp
  from channel_slope(1) [OF this] assms(2)
  have "trend_slope_of (filter (\<lambda>p. tp_channel_id p = c) (trend_points (trend_days now ms)))
      = Some 0"
    by (simp add: spec_slope_constant)
  with trend_row_of_channel [OF assms(3)] assms(4) show ?thesis by simp
qed

text \<open>
  Claim C6. On the daily means 2, 3, 4, 5, 6 of five consecutive days of a channel the
  slope that trend analysis computes is exactly 1. On a constant series of at least 3
  points it is 0: for the rows of consecutive days, and for every message set that
  gives a channel constant daily means on its days with at least 3 messages, whatever
  the gaps between these days.
\<close>

theorem C6_slope:
  "map trend_slope (trend_analysis (trend_points
      [\<lparr>ds_channel_id = c, ds_date = d, daily_sentiment = 2\<rparr>,
       \<lparr>ds_channel_id = c, ds_date = d + 1, daily_sentiment = 3\<rparr>,
       \<lparr>ds_channel_id = c, ds_date = d + 2, daily_sentiment = 4\<rparr>,
       \<lparr>ds_channel_id = c, ds_date = d + 3, daily_sentiment = 5\<rparr>,
       \<lparr>ds_channel_id = c, ds_date = d + 4, daily_sentiment = 6\<rparr>])) = [Some 1]
   \<and> (3 \<le> n \<longrightarrow>
        map trend_slope (trend_analysis (trend_points
          (map (\<lambda>i. \<lparr>ds_channel_id = c, ds_date = d + int i, daily_sentiment = k\<rparr>) [0..<n])))
        = [Some 0])
   \<and> (3 \<le> n \<and> spec_daily_means 3 now ms c = replicate n k \<longrightarrow>
        (\<forall>r \<in> set (trend_analysis (trend_points (trend_days now ms))).
           tr_channel_id r = c \<longrightarrow> trend_slope r = Some 0))"
proof (intro conjI impI ballI)
  show "map trend_slope (trend_analysis (trend_points
      [\<lparr>ds_channel_id = c, ds_date = d, daily_sentiment = 2\<rparr>,
       \<lparr>ds_channel_id = c, ds_date = d + 1, daily_sentiment = 3\<rparr>,
       \<lparr>ds_channel_id = c, ds_date = d + 2, daily_sentiment = 4\<rparr>,
       \<lparr>ds_channel_id = c, ds_date = d + 3, daily_sentiment = 5\<rparr>,
       \<lparr>ds_channel_id = c, ds_date = d + 4, daily_sentiment = 6\<rparr>])) = [Some 1]"
    by (simp add: trend_analysis_def trend_points_def ROW_NUMBER_def trend_slope_of_def)
next
  assume n: "3 \<le> n"
  let ?pts = "map (\<lambda>i. \<lparr>tp_channel_id = c, tp_date = d + int i,
            tp_daily_sentiment = k, day_num = Suc i\<rparr>) [0..<n]"
  from n have "?pts \<noteq> []" by auto
  moreover have "\<forall>p \<in> set ?pts. tp_channel_id p = c" by auto
  ultimately have "map trend_slope (trend_analysis ?pts) = [trend_slope_of ?pts]"
    by (rule trend_analysis_single)
  with n show "map trend_slope (trend_analysis (trend_points
          (map (\<lambda>i. \<lparr>ds_channel_id = c, ds_date = d + int i, daily_sentiment = k\<rparr>) [0..<n])))
        = [Some 0]"
    by (simp add: trend_points_series constant_slope)
next
  fix r
  assume "3 \<le> n \<and> spec_daily_means 3 now ms c = replicate n k"
    and "r \<in> set (trend_analysis (trend_points (trend_days now ms)))"
    and "tr_channel_id r = c"
  then show "trend_slope r = Some 0" by (blast intro: constant_series_slope)
qed

theorem C6_slope_witness:
  "(3::nat) \<le> 4 \<and> (3::nat) \<le> 3
   \<and> map trend_slope (trend_analysis (trend_points
          (map (\<lambda>i. \<lparr>ds_channel_id = ''C1'', ds_date = 10 + int i, daily_sentiment = 7 / 2\<rparr>)
             [0..<4]))) = [Some 0]
   \<and> spec_daily_means 3 475200 
     [\<lparr>channel_id = ''C1'', user_id = ''U1'', timestamp = 129600, sentiment_score = 3\<rparr>,
      \<lparr>channel_id = ''C1'', user_id = ''U2'', timestamp = 129601, sentiment_score = 4\<rparr>,
      \<lparr>channel_id = ''C1'', user_id = ''U3'', timestamp = 129602, sentiment_score = 7 / 2\<rparr>,
      \<lparr>channel_id = ''C1'', user_id = ''U1'', timestamp = 302400, sentiment_score = 3\<rparr>,
      \<lparr>channel_id = ''C1'', user_id = ''U2'', timestamp = 302401, sentiment_score = 4\<rparr>,
      \<lparr>channel_id = ''C1'', user_id = ''U3'', timestamp = 302402, sentiment_score = 7 / 2\<rparr>,
      \<lparr>channel_id = ''C1'', user_id = ''U1'', timestamp = 475200, sentiment_score = 3\<rparr>,
      \<lparr>channel_id = ''C1'', user_id = ''U2'', timestamp = 475200, sentiment_score = 4\<rparr>,
      \<lparr>channel_id = ''C1'', user_id = ''U3'', timestamp = 475200, sentiment_score = 7 / 2\<rparr>] ''C1'' = replicate 3 (7 / 2)
   \<and> map (\<lambda>r. (tr_channel_id r, trend_slope r))
       (trend_analysis (trend_points (trend_days 475200 
     [\<lparr>channel_id = ''C1'', user_id = ''U1'', timestamp = 129600, sentiment_score = 3\<rparr>,
      \<lparr>channel_id = ''C1'', user_id = ''U2'', timestamp = 129601, sentiment_score = 4\<rparr>,
      \<lparr>channel_id = ''C1'', user_id = ''U3'', timestamp = 129602, sentiment_score = 7 / 2\<rparr>,
      \<lparr>channel_id = ''C1'', user_id = ''U1'', timestamp = 302400, sentiment_score = 3\<rparr>,
      \<lparr>channel_id = ''C1'', user_id = ''U2'', timestamp = 302401, sentiment_score = 4\<rparr>,
      \<lparr>channel_id = ''C1'', user_id = ''U3'', timestamp = 302402, sentiment_score = 7 / 2\<rparr>,
      \<lparr>channel_id = ''C1'', user_id = ''U1'', timestamp = 475200, sentiment_score = 3\<rparr>,
      \<lparr>channel_id = ''C1'', user_id = ''U2'', timestamp = 475200, sentiment_score = 4\<rparr>,
      \<lparr>channel_id = ''C1'', user_id = ''U3'', timestamp = 475200, sentiment_score = 7 / 2\<rparr>]))) = [(''C1'', Some 0)]"
  using C6_slope [of "''C1''" 10 4 "7 / 2"] C6_slope [of "''C1''" 10 3 "7 / 2" 475200 "
     [\<lparr>channel_id = ''C1'', user_id = ''U1'', timestamp = 129600, sentiment_score = 3\<rparr>,
      \<lparr>channel_id = ''C1'', user_id = ''U2'', timestamp = 129601, sentiment_score = 4\<rparr>,
      \<lparr>channel_id = ''C1'', user_id = ''U3'', timestamp = 129602, sentiment_score = 7 / 2\<rparr>,
      \<lparr>channel_id = ''C1'', user_id = ''U1'', timestamp = 302400, sentiment_score = 3\<rparr>,
      \<lparr>channel_id = ''C1'', user_id = ''U2'', timestamp = 302401, sentiment_score = 4\<rparr>,
      \<lparr>channel_id = ''C1'', user_id = ''U3'', timestamp = 302402, sentiment_score = 7 / 2\<rparr>,
      \<lparr>channel_id = ''C1'', user_id = ''U1'', timestamp = 475200, sentiment_score = 3\<rparr>,
      \<lparr>channel_id = ''C1'', user_id = ''U2'', timestamp = 475200, sentiment_score = 4\<rparr>,
      \<lparr>channel_id = ''C1'', user_id = ''U3'', timestamp = 475200, sentiment_score = 7 / 2\<rparr>]"]
  by (simp add: spec_daily_means_def trend_analysis_def trend_points_def trend_days_def
      trend_slope_of_def ROW_NUMBER_def AVG_def recent_def DATE_def MIN_col_def MAX_col_def
      Let_def upt_rec [of _ "numeral _"] upt_rec [of _ "Suc _"] replicate_Suc [symmetric]
      numeral_3_eq_3)




end
